theory Spec2Isabelle
  imports Main
begin

section \<open>Scope hoisting: the generate step (packages/shared/scope-hoisting/src/generate.js)\<close>

text \<open>
  \<open>generate\<close> takes the concatenated syntax tree of one bundle, frames its top-level
  statements, hands the tree to the printer and, when source maps are on, builds the
  bundle's source map. The embedding follows the function top to bottom: the check of the
  interpreter directive, the framing of the statements, the program handed to the
  printer, and the assembly of the source map with its per-asset units.
\<close>

subsection \<open>JavaScript values\<close>

text \<open>
  \<open>asset.meta.interpreter\<close> is an untyped value of the asset's meta object. The code reads
  its type tag (\<open>typeof\<close>), compares it with \<open>null\<close> by \<open>==\<close> and tests its truthiness;
  the payload of a number is never read, so an integer stands for it.
\<close>

datatype js_value =
    JUndefined
  | JNull
  | JBoolean bool
  | JNumber int
  | JString string
  | JObject

text \<open>\<open>v == null\<close> holds of \<open>null\<close> and \<open>undefined\<close> only.\<close>

fun eq_null :: "js_value \<Rightarrow> bool" where
  "eq_null JUndefined = True"
| "eq_null JNull = True"
| "eq_null _ = False"

text \<open>\<open>typeof v === 'string'\<close>.\<close>

fun typeof_string :: "js_value \<Rightarrow> bool" where
  "typeof_string (JString s) = True"
| "typeof_string _ = False"

text \<open>The truthiness a condition tests: the empty string, zero, \<open>null\<close> and \<open>undefined\<close> are falsy.\<close>

fun truthy :: "js_value \<Rightarrow> bool" where
  "truthy JUndefined = False"
| "truthy JNull = False"
| "truthy (JBoolean b) = b"
| "truthy (JNumber n) = (n \<noteq> 0)"
| "truthy (JString s) = (s \<noteq> [])"
| "truthy JObject = True"

subsection \<open>Syntax trees\<close>

text \<open>
  The node types of \<open>@babel/types\<close> that the two templates are made of. The statements of
  the input tree are of the same type; \<open>OpaqueStatement\<close> stands for a statement of any
  other node type, named by its text.
\<close>

datatype expression =
    Identifier string
  | StringLiteral string
  | NumericLiteral nat
  | BooleanLiteral bool
  | ArrayExpression "expression list"
  | MemberExpression expression expression bool
  | CallExpression expression "expression list"
  | FunctionExpression "string option" "string list" "statement list"
  | AssignmentExpression string expression expression
  | BinaryExpression string expression expression
  | UpdateExpression string bool expression
and statement =
    ExpressionStatement expression
  | FunctionDeclaration string "string list" "statement list"
  | IfStatement expression statement "statement option"
  | ReturnStatement "expression option"
  | VariableDeclaration string string "expression option"
  | ForStatement "statement option" "expression option" "expression option" statement
  | BlockStatement "statement list"
  | OpaqueStatement string

datatype SourceType = Module | Script

record Program =
  body :: "statement list"
  directives :: "string list"
  sourceType :: SourceType
  interpreter :: "string option"

record File =
  program :: Program

subsection \<open>The two templates\<close>

text \<open>
  \<open>REGISTER_TEMPLATE\<close>, parsed: an immediately invoked function expression holding the
  declaration of \<open>$parcel$bundleWrapper\<close> (the guard on \<open>_executed\<close>, the statements
  spliced in place of \<open>STATEMENTS\<close>, the assignment of the flag), the array of referenced
  ids and the loop that registers the wrapper under each of them.
\<close>

definition bundleWrapper_name :: string where
  "bundleWrapper_name = ''$parcel$bundleWrapper''"

definition executed_flag :: expression where
  "executed_flag = MemberExpression (Identifier bundleWrapper_name) (Identifier ''_executed'') False"

definition bundleWrapper_decl :: "statement list \<Rightarrow> statement" where
  "bundleWrapper_decl STATEMENTS =
     FunctionDeclaration bundleWrapper_name []
       ([IfStatement executed_flag (ReturnStatement None) None]
        @ STATEMENTS
        @ [ExpressionStatement (AssignmentExpression ''='' executed_flag (BooleanLiteral True))])"

definition register_loop :: "expression \<Rightarrow> statement" where
  "register_loop PARCEL_REQUIRE =
     ForStatement
       (Some (VariableDeclaration ''var'' ''$parcel$i'' (Some (NumericLiteral 0))))
       (Some (BinaryExpression ''<'' (Identifier ''$parcel$i'')
                (MemberExpression (Identifier ''$parcel$referencedAssets'') (Identifier ''length'') False)))
       (Some (UpdateExpression ''++'' False (Identifier ''$parcel$i'')))
       (BlockStatement
          [ExpressionStatement
             (CallExpression
                (MemberExpression PARCEL_REQUIRE (Identifier ''registerBundle'') False)
                [MemberExpression (Identifier ''$parcel$referencedAssets'') (Identifier ''$parcel$i'') True,
                 Identifier bundleWrapper_name])])"

definition REGISTER_TEMPLATE :: "statement list \<Rightarrow> expression \<Rightarrow> expression \<Rightarrow> statement" where
  "REGISTER_TEMPLATE STATEMENTS REFERENCED_IDS PARCEL_REQUIRE =
     ExpressionStatement
       (CallExpression
          (FunctionExpression None []
             [bundleWrapper_decl STATEMENTS,
              VariableDeclaration ''var'' ''$parcel$referencedAssets'' (Some REFERENCED_IDS),
              register_loop PARCEL_REQUIRE])
          [])"

text \<open>\<open>WRAPPER_TEMPLATE\<close>: \<open>(function () { STATEMENTS; })()\<close>.\<close>

definition WRAPPER_TEMPLATE :: "statement list \<Rightarrow> statement" where
  "WRAPPER_TEMPLATE STATEMENTS =
     ExpressionStatement (CallExpression (FunctionExpression None [] STATEMENTS) [])"

subsection \<open>Bundles, assets and the bundle graph\<close>

text \<open>
  What \<open>generate\<close> reads of its collaborators. An asset is an object: \<open>asset_id\<close> is its
  identity. \<open>referencedAssets\<close> is a \<open>Set<Asset>\<close>, which iterates in insertion order
  and holds no object twice: a list, \<open>distinct\<close> where that matters. \<open>outputFormat\<close> is
  one of \<open>'global'\<close>, \<open>'esmodule'\<close> and \<open>'commonjs'\<close>; \<open>env.sourceMap\<close> and
  \<open>env.minify\<close> are read as flags.
\<close>

datatype OutputFormat = Global | ESModule | CommonJS

record Asset =
  asset_id :: nat
  meta_interpreter :: js_value

record Environment =
  outputFormat :: OutputFormat
  sourceMap :: bool
  minify :: bool

record Bundle =
  env :: Environment
  target_env_isBrowser :: bool
  getMainEntry :: "Asset option"
  assets :: "Asset list"

record BundleGraph =
  getAssetPublicId :: "Asset \<Rightarrow> string"

record PluginOptions =
  projectRoot :: string

datatype error =
    AssertionError
  | TypeError
  | Rejected string

subsection \<open>The interpreter directive (lines 63 to 69)\<close>

text \<open>
  The variable \<open>interpreter\<close> stays \<open>undefined\<close> unless the bundle has a main entry and
  its target is not a browser; then the \<open>invariant\<close> throws on a value that is neither
  \<open>null\<close>/\<open>undefined\<close> nor a string, and the value is kept otherwise. The result is the
  variable \<open>interpreter\<close> after line 69.
\<close>

definition checkInterpreter :: "Bundle \<Rightarrow> error + js_value" where
  "checkInterpreter bundle =
     (case getMainEntry bundle of
        None \<Rightarrow> Inr JUndefined
      | Some mainEntry \<Rightarrow>
          if target_env_isBrowser bundle then Inr JUndefined
          else (let interpreter' = meta_interpreter mainEntry
                in if eq_null interpreter' \<or> typeof_string interpreter'
                   then Inr interpreter' else Inl AssertionError))"

subsection \<open>Framing the statements (lines 71 to 92)\<close>

text \<open>
  \<open>[mainEntry, ...referencedAssets].filter(Boolean)\<close>: the main entry, when there is one,
  then the referenced assets in the order of the set. Nothing removes a repeated asset.
\<close>

definition registeredAssets :: "Asset option \<Rightarrow> Asset list \<Rightarrow> Asset list" where
  "registeredAssets mainEntry referencedAssets =
     List.map_filter (\<lambda>a. a) (mainEntry # map Some referencedAssets)"

definition REFERENCED_IDS :: "BundleGraph \<Rightarrow> Asset option \<Rightarrow> Asset list \<Rightarrow> expression" where
  "REFERENCED_IDS bundleGraph mainEntry referencedAssets =
     ArrayExpression
       (map (\<lambda>asset. StringLiteral (getAssetPublicId bundleGraph asset))
            (registeredAssets mainEntry referencedAssets))"

text \<open>
  Lines 75 to 92, which the design calls the framing of the bundle: for the format
  \<open>'global'\<close> an async bundle gets \<open>REGISTER_TEMPLATE\<close> and any other bundle
  \<open>WRAPPER_TEMPLATE\<close>; for the other formats the statements are \<open>ast.program.body\<close>.
\<close>

definition frame ::
  "bool \<Rightarrow> Bundle \<Rightarrow> BundleGraph \<Rightarrow> Asset list \<Rightarrow> string \<Rightarrow> statement list \<Rightarrow> statement list" where
  "frame isAsync bundle bundleGraph referencedAssets parcelRequireName statements =
     (if outputFormat (env bundle) = Global then
        (if isAsync then
           [REGISTER_TEMPLATE statements
              (REFERENCED_IDS bundleGraph (getMainEntry bundle) referencedAssets)
              (Identifier parcelRequireName)]
         else [WRAPPER_TEMPLATE statements])
      else statements)"

subsection \<open>The program handed to the printer (lines 94 to 101)\<close>

text \<open>
  \<open>interpreter ? t.interpreterDirective(interpreter) : null\<close>: a falsy value, the empty
  string among them, gives no directive. A truthy value has passed the \<open>invariant\<close> and
  is a string; for any other value the builder has no directive to make.
\<close>

definition interpreterDirective :: "js_value \<Rightarrow> string option" where
  "interpreterDirective interp =
     (if truthy interp then (case interp of JString s \<Rightarrow> Some s | _ \<Rightarrow> None) else None)"

definition buildFile :: "Bundle \<Rightarrow> statement list \<Rightarrow> js_value \<Rightarrow> File" where
  "buildFile bundle statements interp =
     \<lparr>program =
        \<lparr>body = statements,
         directives = [],
         sourceType = (if outputFormat (env bundle) = ESModule then Module else Script),
         interpreter = interpreterDirective interp\<rparr>\<rparr>"

subsection \<open>The printer and the source map container\<close>

text \<open>
  \<open>babelGenerate\<close> (\<open>@babel/generator\<close>) returns the text and, when it was asked for
  source maps, the raw mappings.
\<close>

record RawMapping =
  generated :: "nat \<times> nat"
  original :: "(nat \<times> nat) option"
  source :: "string option"

record GeneratorOptions =
  sourceMaps :: bool
  minified :: bool
  comments :: bool

record GeneratorResult =
  code :: string
  rawMappings :: "RawMapping list option"

text \<open>
  Modelled from the spec: the container \<open>SourceMap\<close> of \<open>@parcel/source-map\<close>, of which
  the sources hold only the calls. It is created for a project root, takes indexed
  mappings in bulk and one content per source path; a later content for a path replaces
  the earlier one.
\<close>

record SourceMap =
  root :: string
  indexedMappings :: "RawMapping list"
  contentOf :: "string \<rightharpoonup> string"

definition new_SourceMap :: "string \<Rightarrow> SourceMap" where
  "new_SourceMap r = \<lparr>root = r, indexedMappings = [], contentOf = Map.empty\<rparr>"

definition addIndexedMappings :: "RawMapping list \<Rightarrow> SourceMap \<Rightarrow> SourceMap" where
  "addIndexedMappings ms m = m\<lparr>indexedMappings := indexedMappings m @ ms\<rparr>"

definition setSourceContent :: "string \<Rightarrow> string \<Rightarrow> SourceMap \<Rightarrow> SourceMap" where
  "setSourceContent sourceFilePath content m =
     m\<lparr>contentOf := (contentOf m)(sourceFilePath \<mapsto> content)\<rparr>"

text \<open>
  What \<open>toVLQ\<close> returns, as far as it is read: the source paths and, when present, the
  list of contents, each a string or \<open>null\<close>.
\<close>

record VLQMap =
  sources :: "string list"
  sourcesContent :: "string option list option"

subsection \<open>Collaborators and effects\<close>

text \<open>
  The functions \<open>generate\<close> calls and does not define are parameters: \<open>isEntry\<close> of
  \<open>./utils\<close>, the printer, and the decoding \<open>toVLQ\<close> of a source map, which may throw.
\<close>

record externals =
  isEntry :: "Bundle \<Rightarrow> BundleGraph \<Rightarrow> bool"
  babelGenerate :: "File \<Rightarrow> GeneratorOptions \<Rightarrow> GeneratorResult"
  toVLQ :: "SourceMap \<Rightarrow> error + VLQMap"

text \<open>
  The state outside the call. \<open>assetMaps\<close> gives, for the asset of each identity, what
  \<open>asset.getMap()\<close> resolves to: a rejection, no map, or the map object; a mutation of
  that object is written back here. \<open>trace\<close> records, in order, the calls made to the
  collaborators: the call of the printer, the traversal of the bundle's assets, each map
  fetch, each line of \<open>console.log\<close>.
\<close>

datatype call =
    BabelGenerate File GeneratorOptions
  | TraverseAssets
  | GetMap nat
  | ConsoleLog "string list"

record world =
  assetMaps :: "nat \<Rightarrow> error + SourceMap option"
  trace :: "call list"

definition emit :: "call \<Rightarrow> world \<Rightarrow> world" where
  "emit c w = w\<lparr>trace := trace w @ [c]\<rparr>"

subsection \<open>One unit of the queue (lines 118 to 137)\<close>

text \<open>
  The loop over \<open>vlqEncodedMap.sourcesContent\<close>, from index \<open>i\<close> on. Inside the unit
  \<open>map\<close> is the variable declared on line 120, the asset's own map, which hides the
  \<open>map\<close> of line 109: \<open>map.setSourceContent\<close> on line 131 changes the asset's map. A falsy
  content (\<open>null\<close> or the empty string) is passed over. \<open>sources[i]\<close> beyond the end of
  \<open>sources\<close> is \<open>undefined\<close>, which the container's \<open>setSourceContent\<close>, typed for a
  string, refuses.
\<close>

fun attachContents ::
  "nat \<Rightarrow> string list \<Rightarrow> string option list \<Rightarrow> nat \<Rightarrow> SourceMap \<Rightarrow> world \<Rightarrow> (error + unit) \<times> world" where
  "attachContents aid srcs [] i m w = (Inr (), w)"
| "attachContents aid srcs (sourceContent # rest) i m w =
     (case sourceContent of
        None \<Rightarrow> attachContents aid srcs rest (Suc i) m w
      | Some c \<Rightarrow>
          if \<not> truthy (JString c) then attachContents aid srcs rest (Suc i) m w
          else if \<not> i < length srcs then (Inl TypeError, w)
          else
            (let sourceFilePath = srcs ! i;
                 m' = setSourceContent sourceFilePath c m;
                 w' = emit (ConsoleLog [''setSourceContent'', sourceFilePath])
                        (w\<lparr>assetMaps := (assetMaps w)(aid := Inr (Some m'))\<rparr>)
             in attachContents aid srcs rest (Suc i) m' w'))"

definition fetchAndAttach :: "externals \<Rightarrow> Asset \<Rightarrow> world \<Rightarrow> (error + unit) \<times> world" where
  "fetchAndAttach ext asset w =
     (let w1 = emit (GetMap (asset_id asset)) w in
      case assetMaps w (asset_id asset) of
        Inl e \<Rightarrow> (Inl e, w1)
      | Inr None \<Rightarrow> (Inr (), w1)
      | Inr (Some m) \<Rightarrow>
          (case toVLQ ext m of
             Inl e \<Rightarrow> (Inl e, w1)
           | Inr vlqEncodedMap \<Rightarrow>
               (case sourcesContent vlqEncodedMap of
                  None \<Rightarrow> (Inr (), w1)
                | Some cs \<Rightarrow> attachContents (asset_id asset) (sources vlqEncodedMap) cs 0 m w1)))"

subsection \<open>The queue\<close>

text \<open>
  Modelled from the spec: \<open>PromiseQueue\<close> of \<open>@parcel/utils\<close>, which is not among the
  sources. \<open>bundle.traverseAssets\<close> adds one unit per asset of the bundle and
  \<open>promiseQueue.run()\<close> resolves once every unit has completed; the failure of a unit
  fails the run. The units are run here one after the other, in the order they were
  added; the interleaving of units in flight together is outside the model.
\<close>

fun runQueue :: "(world \<Rightarrow> (error + unit) \<times> world) list \<Rightarrow> world \<Rightarrow> (error + unit) \<times> world" where
  "runQueue [] w = (Inr (), w)"
| "runQueue (u # us) w =
     (case u w of
        (Inl e, w') \<Rightarrow> (Inl e, w')
      | (Inr _, w') \<Rightarrow> runQueue us w')"

subsection \<open>generate (lines 48 to 146)\<close>

record generate_args =
  bundleGraph :: BundleGraph
  bundle' :: Bundle
  ast :: File
  referencedAssets :: "Asset list"
  parcelRequireName :: string
  options :: PluginOptions

record generate_result =
  contents :: string
  result_map :: "SourceMap option"

text \<open>The tree handed to the printer, or the failure of the \<open>invariant\<close> (lines 63 to 101).\<close>

definition printerInput :: "externals \<Rightarrow> generate_args \<Rightarrow> error + File" where
  "printerInput ext a =
     (case checkInterpreter (bundle' a) of
        Inl e \<Rightarrow> Inl e
      | Inr interp \<Rightarrow>
          (let isAsync = \<not> isEntry ext (bundle' a) (bundleGraph a);
               statements = frame isAsync (bundle' a) (bundleGraph a) (referencedAssets a)
                              (parcelRequireName a) (body (program (ast a)))
           in Inr (buildFile (bundle' a) statements interp)))"

definition generatorOptions :: "Bundle \<Rightarrow> GeneratorOptions" where
  "generatorOptions b =
     \<lparr>sourceMaps = sourceMap (env b), minified = minify (env b), comments = True\<rparr>"

definition generate :: "externals \<Rightarrow> generate_args \<Rightarrow> world \<Rightarrow> (error + generate_result) \<times> world" where
  "generate ext a w =
     (case printerInput ext a of
        Inl e \<Rightarrow> (Inl e, w)
      | Inr file \<Rightarrow>
          (let opts = generatorOptions (bundle' a);
               res = babelGenerate ext file opts;
               w1 = emit (BabelGenerate file opts) w
           in if sourceMap (env (bundle' a)) \<and> rawMappings res \<noteq> None then
                (let m = addIndexedMappings (the (rawMappings res))
                           (new_SourceMap (projectRoot (options a)));
                     w2 = emit TraverseAssets w1
                 in case runQueue (map (fetchAndAttach ext) (assets (bundle' a))) w2 of
                      (Inl e, w3) \<Rightarrow> (Inl e, w3)
                    | (Inr _, w3) \<Rightarrow> (Inr \<lparr>contents = code res, result_map = Some m\<rparr>, w3))
              else (Inr \<lparr>contents = code res, result_map = None\<rparr>, w1)))"

subsection \<open>The wrapper at run time (lines 33 to 37)\<close>

text \<open>
  What a call of \<open>$parcel$bundleWrapper\<close> does. \<open>executed\<close> is the property
  \<open>_executed\<close> of the function object, unset at first; \<open>heap\<close> is everything else the
  wrapped statements read and write. \<open>started\<close> and \<open>completed\<close> count the runs of
  the statements that began and that reached line 36; only the wrapper advances them.

  The statements run inside the function, before line 36 has set the flag, with the
  wrapper in scope and registered with the loader. So they are given the wrapper itself,
  to call it again, and the whole state, to read and assign \<open>_executed\<close>. They complete or
  throw, and a throw leaves the function before line 36.

  A call nests as deep as the statements make it. The first argument bounds the depth of
  calls still available; \<open>None\<close> is a call that does not return within it.
\<close>

datatype 's completion = Normal 's | Throw 's

record 'h wrapper_state =
  executed :: bool
  heap :: 'h
  started :: nat
  completed :: nat

type_synonym 'h wrapper_call = "'h wrapper_state \<Rightarrow> 'h wrapper_state completion option"

type_synonym 'h wrapped_statements = "'h wrapper_call \<Rightarrow> 'h wrapper_call"

primrec bundleWrapper :: "nat \<Rightarrow> 'h wrapped_statements \<Rightarrow> 'h wrapper_call" where
  "bundleWrapper 0 STATEMENTS s = None"
| "bundleWrapper (Suc depth) STATEMENTS s =
     (if executed s then Some (Normal s)
      else (case STATEMENTS (bundleWrapper depth STATEMENTS) (s\<lparr>started := Suc (started s)\<rparr>) of
              None \<Rightarrow> None
            | Some (Throw s') \<Rightarrow> Some (Throw s')
            | Some (Normal s') \<Rightarrow>
                Some (Normal (s'\<lparr>completed := Suc (completed s'), executed := True\<rparr>))))"

text \<open>The wrapper as it is first defined.\<close>

definition fresh_wrapper :: "'h \<Rightarrow> 'h wrapper_state" where
  "fresh_wrapper h = \<lparr>executed = False, heap = h, started = 0, completed = 0\<rparr>"

text \<open>
  \<open>k\<close> calls of the wrapper one after the other from outside the statements, by a caller
  that catches what a call throws and goes on.
\<close>

fun invoke :: "nat \<Rightarrow> nat \<Rightarrow> 'h wrapped_statements \<Rightarrow> 'h wrapper_state \<Rightarrow> 'h wrapper_state option" where
  "invoke depth 0 STATEMENTS s = Some s"
| "invoke depth (Suc k) STATEMENTS s =
     (case bundleWrapper depth STATEMENTS s of
        None \<Rightarrow> None
      | Some (Normal s') \<Rightarrow> invoke depth k STATEMENTS s'
      | Some (Throw s') \<Rightarrow> invoke depth k STATEMENTS s')"

text \<open>
  Statements that neither call the wrapper nor touch its flag: they read and write the
  heap only, and complete or throw.
\<close>

definition plain :: "('h \<Rightarrow> 'h completion) \<Rightarrow> 'h wrapped_statements" where
  "plain f call s =
     (case f (heap s) of
        Normal h \<Rightarrow> Some (Normal (s\<lparr>heap := h\<rparr>))
      | Throw h \<Rightarrow> Some (Throw (s\<lparr>heap := h\<rparr>)))"

subsection \<open>Observations\<close>

text \<open>The statement list handed to the printer, when the printer is reached.\<close>

definition printedStatements :: "externals \<Rightarrow> generate_args \<Rightarrow> statement list option" where
  "printedStatements ext a =
     (case printerInput ext a of Inl e \<Rightarrow> None | Inr file \<Rightarrow> Some (body (program file)))"

text \<open>The interpreter directive of the tree handed to the printer.\<close>

definition printedInterpreter :: "externals \<Rightarrow> generate_args \<Rightarrow> string option option" where
  "printedInterpreter ext a =
     (case printerInput ext a of Inl e \<Rightarrow> None | Inr file \<Rightarrow> Some (interpreter (program file)))"

text \<open>The public ids passed to the registration, in the order of the array.\<close>

definition registeredIds :: "generate_args \<Rightarrow> string list" where
  "registeredIds a =
     map (getAssetPublicId (bundleGraph a))
       (registeredAssets (getMainEntry (bundle' a)) (referencedAssets a))"

text \<open>The calls of a trace that traverse the bundle's assets or fetch an asset's map.\<close>

fun traversal_call :: "call \<Rightarrow> bool" where
  "traversal_call TraverseAssets = True"
| "traversal_call (GetMap i) = True"
| "traversal_call _ = False"

definition traversals :: "world \<Rightarrow> call list" where
  "traversals w = filter traversal_call (trace w)"

text \<open>
  The unit of an asset fails at its fetch or at the decoding of its map: \<open>getMap\<close> rejects,
  or the map it resolves to makes \<open>toVLQ\<close> throw.
\<close>

definition fetchOrDecodeFails :: "externals \<Rightarrow> world \<Rightarrow> Asset \<Rightarrow> bool" where
  "fetchOrDecodeFails ext w asset =
     (case assetMaps w (asset_id asset) of
        Inl e \<Rightarrow> True
      | Inr None \<Rightarrow> False
      | Inr (Some m) \<Rightarrow> (case toVLQ ext m of Inl e \<Rightarrow> True | Inr v \<Rightarrow> False))"

subsection \<open>Sample inputs\<close>

text \<open>
  Four assets: \<open>asset_a\<close> declares no interpreter, \<open>asset_b\<close> a node interpreter,
  \<open>asset_c\<close> the number 42, \<open>asset_d\<close> the empty string. The graph gives assets 1 and
  2 the public ids \<open>a1\<close> and \<open>b2\<close>.
\<close>

definition asset_a :: Asset where
  "asset_a = \<lparr>asset_id = 1, meta_interpreter = JUndefined\<rparr>"

definition asset_b :: Asset where
  "asset_b = \<lparr>asset_id = 2, meta_interpreter = JString ''/usr/bin/env node''\<rparr>"

definition asset_c :: Asset where
  "asset_c = \<lparr>asset_id = 3, meta_interpreter = JNumber 42\<rparr>"

definition asset_d :: Asset where
  "asset_d = \<lparr>asset_id = 4, meta_interpreter = JString []\<rparr>"

definition sample_graph :: BundleGraph where
  "sample_graph =
     \<lparr>getAssetPublicId = (\<lambda>asset. if asset_id asset = 1 then ''a1''
                                  else if asset_id asset = 2 then ''b2'' else ''c3'')\<rparr>"

definition sample_bundle :: "OutputFormat \<Rightarrow> bool \<Rightarrow> bool \<Rightarrow> Asset option \<Rightarrow> Bundle" where
  "sample_bundle fmt maps browser mainEntry =
     \<lparr>env = \<lparr>outputFormat = fmt, sourceMap = maps, minify = False\<rparr>,
      target_env_isBrowser = browser,
      getMainEntry = mainEntry,
      assets = [asset_a, asset_b]\<rparr>"

definition sample_ast :: File where
  "sample_ast =
     \<lparr>program =
        \<lparr>body = [OpaqueStatement ''var $a$x = 1;'', OpaqueStatement ''$a$run($a$x);''],
         directives = [], sourceType = Script, interpreter = None\<rparr>\<rparr>"

definition sample_args :: "Bundle \<Rightarrow> Asset list \<Rightarrow> generate_args" where
  "sample_args b refs =
     \<lparr>bundleGraph = sample_graph, bundle' = b, ast = sample_ast, referencedAssets = refs,
      parcelRequireName = ''parcelRequire'', options = \<lparr>projectRoot = ''/project''\<rparr>\<rparr>"

text \<open>
  A printer that returns one raw mapping when asked for source maps and \<open>withMappings\<close>
  is set, and none otherwise; a decoding that fails on the map rooted at \<open>''broken''\<close>
  and else gives two sources, the second with empty content.
\<close>

definition sample_printer :: "bool \<Rightarrow> File \<Rightarrow> GeneratorOptions \<Rightarrow> GeneratorResult" where
  "sample_printer withMappings file opts =
     \<lparr>code = ''/* bundle */'',
      rawMappings =
        (if sourceMaps opts \<and> withMappings
         then Some [\<lparr>generated = (1, 0), original = Some (1, 0), source = Some ''src/a.js''\<rparr>]
         else None)\<rparr>"

definition sample_toVLQ :: "SourceMap \<Rightarrow> error + VLQMap" where
  "sample_toVLQ m =
     (if root m = ''broken'' then Inl (Rejected ''malformed map'')
      else Inr \<lparr>sources = [''src/a.js'', ''src/empty.js''],
                sourcesContent = Some [Some ''let a = 1;'', Some []]\<rparr>)"

definition sample_ext :: "bool \<Rightarrow> bool \<Rightarrow> externals" where
  "sample_ext entry withMappings =
     \<lparr>isEntry = (\<lambda>b g. entry), babelGenerate = sample_printer withMappings, toVLQ = sample_toVLQ\<rparr>"

text \<open>
  Worlds: in \<open>sample_world\<close> asset 1 has a map and asset 2 none; in
  \<open>mapless_world\<close> no asset has a map; in \<open>broken_world\<close> the map of asset 2 does not
  decode.
\<close>

definition sample_world :: world where
  "sample_world =
     \<lparr>assetMaps = (\<lambda>i. if i = 1 then Inr (Some (new_SourceMap ''/project'')) else Inr None),
      trace = []\<rparr>"

definition mapless_world :: world where
  "mapless_world = \<lparr>assetMaps = (\<lambda>i. Inr None), trace = []\<rparr>"

definition broken_world :: world where
  "broken_world =
     \<lparr>assetMaps = (\<lambda>i. if i = 2 then Inr (Some (new_SourceMap ''broken'')) else Inr None),
      trace = []\<rparr>"

text \<open>
  Wrapped statements over a heap that is a log of lines. \<open>logging\<close> writes a line and
  completes. \<open>throwing_statements\<close> is \<open>log('run'); throw e\<close>.
  \<open>reentrant_statements\<close> is
  \<open>log('start'); if (first) $parcel$bundleWrapper(); log('end')\<close>, where \<open>first\<close>
  says that the log was empty when the statements began. \<open>resetting_statements\<close> is
  \<open>log('start'); if (first) { $parcel$bundleWrapper();
  $parcel$bundleWrapper._executed = false; log('reset'); $parcel$bundleWrapper(); }
  log('end')\<close>. A call that throws or does not return ends the statements there.
\<close>

definition log_line :: "string \<Rightarrow> string list wrapper_state \<Rightarrow> string list wrapper_state" where
  "log_line line s = s\<lparr>heap := heap s @ [line]\<rparr>"

definition logging :: "string list \<Rightarrow> string list completion" where
  "logging h = Normal (h @ [''run''])"

definition throwing_statements :: "string list wrapped_statements" where
  "throwing_statements call s = Some (Throw (log_line ''run'' s))"

definition reentrant_statements :: "string list wrapped_statements" where
  "reentrant_statements call s =
     (if heap s = [] then
        (case call (log_line ''start'' s) of
           Some (Normal s2) \<Rightarrow> Some (Normal (log_line ''end'' s2))
         | r \<Rightarrow> r)
      else Some (Normal (log_line ''end'' (log_line ''start'' s))))"

definition resetting_statements :: "string list wrapped_statements" where
  "resetting_statements call s =
     (if heap s = [] then
        (case call (log_line ''start'' s) of
           Some (Normal s2) \<Rightarrow>
             (case call (log_line ''reset'' (s2\<lparr>executed := False\<rparr>)) of
                Some (Normal s3) \<Rightarrow> Some (Normal (log_line ''end'' s3))
              | r \<Rightarrow> r)
         | r \<Rightarrow> r)
      else Some (Normal (log_line ''end'' (log_line ''start'' s))))"

section \<open>Properties\<close>

subsection \<open>Auxiliary facts\<close>

lemma registeredAssets_simps:
  "registeredAssets None refs = refs"
  "registeredAssets (Some m) refs = m # refs"
  by (simp_all add: registeredAssets_def List.map_filter_def comp_def)

lemma printerInput_Inr:
  "printerInput ext a = Inr file \<Longrightarrow>
   \<exists>interp. checkInterpreter (bundle' a) = Inr interp \<and>
     file = buildFile (bundle' a)
              (frame (\<not> isEntry ext (bundle' a) (bundleGraph a)) (bundle' a) (bundleGraph a)
                 (referencedAssets a) (parcelRequireName a) (body (program (ast a)))) interp"
  by (auto simp: printerInput_def Let_def split: sum.splits)

lemma body_buildFile: "body (program (buildFile b stmts i)) = stmts"
  by (simp add: buildFile_def)

lemmas sample_defs = sample_args_def sample_bundle_def sample_ext_def sample_graph_def
  sample_ast_def asset_a_def asset_b_def asset_c_def asset_d_def

lemma count_list_map_inj:
  "inj_on f (insert x (set xs)) \<Longrightarrow> count_list (map f xs) (f x) = count_list xs x"
  by (induction xs) (auto simp: inj_on_def)

lemma count_list_distinct:
  "distinct xs \<Longrightarrow> count_list xs x = (if x \<in> set xs then 1 else 0)"
  by (induction xs) auto

lemma registeredIds_eq:
  "registeredIds a =
     map (getAssetPublicId (bundleGraph a))
       (case getMainEntry (bundle' a) of None \<Rightarrow> referencedAssets a
        | Some m \<Rightarrow> m # referencedAssets a)"
  by (simp add: registeredIds_def registeredAssets_simps split: option.split)

lemma set_registeredIds:
  "set (registeredIds a) =
     getAssetPublicId (bundleGraph a) ` (set_option (getMainEntry (bundle' a)) \<union> set (referencedAssets a))"
  by (auto simp: registeredIds_eq split: option.splits)

lemma count_registeredIds:
  assumes d: "distinct (referencedAssets a)"
    and i: "inj_on (getAssetPublicId (bundleGraph a))
              (set_option (getMainEntry (bundle' a)) \<union> set (referencedAssets a))"
    and x: "x \<in> set_option (getMainEntry (bundle' a)) \<union> set (referencedAssets a)"
  shows "count_list (registeredIds a) (getAssetPublicId (bundleGraph a) x) =
           (if getMainEntry (bundle' a) = Some x \<and> x \<in> set (referencedAssets a) then 2 else 1)"
proof (cases "getMainEntry (bundle' a)")
  case None
  with i x have "inj_on (getAssetPublicId (bundleGraph a)) (insert x (set (referencedAssets a)))"
    by (simp add: insert_absorb)
  from count_list_map_inj[OF this] None x d show ?thesis
    by (simp add: registeredIds_eq count_list_distinct)
next
  case (Some m)
  with i x have "inj_on (getAssetPublicId (bundleGraph a)) (insert x (set (m # referencedAssets a)))"
    by (auto simp: insert_absorb)
  from count_list_map_inj[OF this] Some x d show ?thesis
    by (auto simp: registeredIds_eq count_list_distinct)
qed

lemma printerInput_sample_esm:
  "printerInput (sample_ext False True) (sample_args (sample_bundle ESModule True True (Some asset_a)) [asset_b])
   = Inr (buildFile (sample_bundle ESModule True True (Some asset_a)) (body (program sample_ast)) JUndefined)"
  by (simp add: printerInput_def checkInterpreter_def frame_def sample_defs)

lemma printerInput_sample_entry_global:
  "printerInput (sample_ext True True) (sample_args (sample_bundle Global False True (Some asset_a)) [])
   = Inr (buildFile (sample_bundle Global False True (Some asset_a))
            [WRAPPER_TEMPLATE (body (program sample_ast))] JUndefined)"
  by (simp add: printerInput_def checkInterpreter_def frame_def sample_defs)

lemma printerInput_sample_async_global:
  "printerInput (sample_ext False True)
     (sample_args (sample_bundle Global False True (Some asset_a)) [asset_a, asset_b])
   = Inr (buildFile (sample_bundle Global False True (Some asset_a))
            [REGISTER_TEMPLATE (body (program sample_ast))
               (ArrayExpression [StringLiteral ''a1'', StringLiteral ''a1'', StringLiteral ''b2''])
               (Identifier ''parcelRequire'')] JUndefined)"
  by (simp add: printerInput_def checkInterpreter_def frame_def REFERENCED_IDS_def
        registeredAssets_simps sample_defs)

lemma sample_graph_inj:
  "inj_on (getAssetPublicId sample_graph) (set_option (Some asset_a) \<union> set [asset_a, asset_b])"
  by (auto simp: inj_on_def sample_graph_def asset_a_def asset_b_def)

subsection \<open>Framing\<close>

text \<open>
  C1, as stated: for every entry bundle, of any output format, the statement list handed
  to the printer is the input's top-level statements. It fails for an entry bundle of
  format \<open>'global'\<close>: line 91 wraps its statements in \<open>WRAPPER_TEMPLATE\<close>.
\<close>

theorem entry_global_counterexample:
  "isEntry (sample_ext True True) (bundle' (sample_args (sample_bundle Global False True (Some asset_a)) []))
      (bundleGraph (sample_args (sample_bundle Global False True (Some asset_a)) []))
   \<and> printedStatements (sample_ext True True) (sample_args (sample_bundle Global False True (Some asset_a)) [])
       = Some [ExpressionStatement (CallExpression (FunctionExpression None []
            [OpaqueStatement ''var $a$x = 1;'', OpaqueStatement ''$a$run($a$x);'']) [])]
   \<and> printedStatements (sample_ext True True) (sample_args (sample_bundle Global False True (Some asset_a)) [])
       \<noteq> Some (body (program (ast (sample_args (sample_bundle Global False True (Some asset_a)) []))))"
  by (simp add: printedStatements_def printerInput_def checkInterpreter_def frame_def buildFile_def
        WRAPPER_TEMPLATE_def sample_defs)

text \<open>
  C1, amended: for an entry bundle the statement list handed to the printer is the input's
  top-level statements, unchanged, when the output format is not \<open>'global'\<close>; when it
  is \<open>'global'\<close>, it is one statement, the call of a plain function expression whose body
  is the input's statements in their order, with no registration.
\<close>

theorem entry_bundle_statements:
  "isEntry ext (bundle' a) (bundleGraph a) \<Longrightarrow> printerInput ext a = Inr tree \<Longrightarrow>
   body (program tree) =
     (if outputFormat (env (bundle' a)) = Global
      then [ExpressionStatement (CallExpression (FunctionExpression None [] (body (program (ast a)))) [])]
      else body (program (ast a)))"
proof -
  assume e: "isEntry ext (bundle' a) (bundleGraph a)" and p: "printerInput ext a = Inr tree"
  from printerInput_Inr[OF p] obtain interp where
    t: "tree = buildFile (bundle' a)
              (frame (\<not> isEntry ext (bundle' a) (bundleGraph a)) (bundle' a) (bundleGraph a)
                 (referencedAssets a) (parcelRequireName a) (body (program (ast a)))) interp"
    by blast
  show ?thesis
    unfolding t body_buildFile using e by (simp add: frame_def WRAPPER_TEMPLATE_def)
qed

theorem entry_bundle_statements_witness:
  "isEntry (sample_ext True True) (bundle' (sample_args (sample_bundle Global False True (Some asset_a)) []))
      (bundleGraph (sample_args (sample_bundle Global False True (Some asset_a)) []))
   \<and> printerInput (sample_ext True True) (sample_args (sample_bundle Global False True (Some asset_a)) [])
       = Inr (buildFile (sample_bundle Global False True (Some asset_a))
            [WRAPPER_TEMPLATE (body (program sample_ast))] JUndefined)
   \<and> body (program (buildFile (sample_bundle Global False True (Some asset_a))
            [WRAPPER_TEMPLATE (body (program sample_ast))] JUndefined))
       = [ExpressionStatement (CallExpression (FunctionExpression None []
            [OpaqueStatement ''var $a$x = 1;'', OpaqueStatement ''$a$run($a$x);'']) [])]"
  using entry_bundle_statements [of "sample_ext True True"
          "sample_args (sample_bundle Global False True (Some asset_a)) []", OF _ printerInput_sample_entry_global]
        printerInput_sample_entry_global
  by (simp add: sample_args_def sample_bundle_def sample_ast_def sample_ext_def)

text \<open>
  C3, as stated: the id array of the registration holds each public id of
  \<open>{main entry} \<union> referencedAssets\<close> exactly once, also when the main entry is a member
  of \<open>referencedAssets\<close>. With the main entry \<open>asset_a\<close> also the one referenced asset,
  its id is in the array twice.
\<close>

theorem main_entry_registered_twice:
  "\<not> isEntry (sample_ext False True) (bundle' (sample_args (sample_bundle Global False True (Some asset_a)) [asset_a]))
        (bundleGraph (sample_args (sample_bundle Global False True (Some asset_a)) [asset_a]))
   \<and> outputFormat (env (bundle' (sample_args (sample_bundle Global False True (Some asset_a)) [asset_a]))) = Global
   \<and> getMainEntry (bundle' (sample_args (sample_bundle Global False True (Some asset_a)) [asset_a])) = Some asset_a
   \<and> referencedAssets (sample_args (sample_bundle Global False True (Some asset_a)) [asset_a]) = [asset_a]
   \<and> printedStatements (sample_ext False True) (sample_args (sample_bundle Global False True (Some asset_a)) [asset_a])
       = Some [REGISTER_TEMPLATE [OpaqueStatement ''var $a$x = 1;'', OpaqueStatement ''$a$run($a$x);'']
                 (ArrayExpression [StringLiteral ''a1'', StringLiteral ''a1''])
                 (Identifier ''parcelRequire'')]"
  by (simp add: printedStatements_def printerInput_def checkInterpreter_def frame_def buildFile_def
        REFERENCED_IDS_def registeredAssets_simps sample_defs)

text \<open>
  C3, amended: for a non-entry bundle of format \<open>'global'\<close> the tree's top level is the one
  statement of \<open>REGISTER_TEMPLATE\<close>, whose id array is the public id of the main entry,
  when there is one, followed by those of \<open>referencedAssets\<close> in the order of the set. As
  a set these are the public ids of \<open>{main entry} \<union> referencedAssets\<close>. Nothing is
  deduplicated: with public ids unique and no asset twice in the set, each id is in the
  array once, except that the id of a main entry that is also a referenced asset is there
  twice.
\<close>

theorem async_global_registration:
  assumes "\<not> isEntry ext (bundle' a) (bundleGraph a)"
    and "outputFormat (env (bundle' a)) = Global"
    and "printerInput ext a = Inr tree"
  shows "body (program tree) =
           [REGISTER_TEMPLATE (body (program (ast a)))
              (ArrayExpression (map StringLiteral (registeredIds a)))
              (Identifier (parcelRequireName a))]
         \<and> registeredIds a =
             map (getAssetPublicId (bundleGraph a))
               (case getMainEntry (bundle' a) of None \<Rightarrow> referencedAssets a
                | Some m \<Rightarrow> m # referencedAssets a)
         \<and> set (registeredIds a) =
             getAssetPublicId (bundleGraph a) `
               (set_option (getMainEntry (bundle' a)) \<union> set (referencedAssets a))
         \<and> (distinct (referencedAssets a) \<and>
              inj_on (getAssetPublicId (bundleGraph a))
                (set_option (getMainEntry (bundle' a)) \<union> set (referencedAssets a)) \<longrightarrow>
              (\<forall>x \<in> set_option (getMainEntry (bundle' a)) \<union> set (referencedAssets a).
                 count_list (registeredIds a) (getAssetPublicId (bundleGraph a) x) =
                   (if getMainEntry (bundle' a) = Some x \<and> x \<in> set (referencedAssets a)
                    then 2 else 1)))"
proof -
  from printerInput_Inr[OF assms(3)] obtain interp where
    t: "tree = buildFile (bundle' a)
              (frame (\<not> isEntry ext (bundle' a) (bundleGraph a)) (bundle' a) (bundleGraph a)
                 (referencedAssets a) (parcelRequireName a) (body (program (ast a)))) interp"
    by blast
  have b: "body (program tree) =
           [REGISTER_TEMPLATE (body (program (ast a)))
              (ArrayExpression (map StringLiteral (registeredIds a)))
              (Identifier (parcelRequireName a))]"
    unfolding t body_buildFile using assms(1,2)
    by (simp add: frame_def REFERENCED_IDS_def registeredIds_def comp_def)
  show ?thesis
    using b registeredIds_eq set_registeredIds count_registeredIds by blast
qed

theorem async_global_registration_witness:
  "\<not> isEntry (sample_ext False True)
        (bundle' (sample_args (sample_bundle Global False True (Some asset_a)) [asset_a, asset_b]))
        (bundleGraph (sample_args (sample_bundle Global False True (Some asset_a)) [asset_a, asset_b]))
   \<and> outputFormat (env (bundle' (sample_args (sample_bundle Global False True (Some asset_a)) [asset_a, asset_b]))) = Global
   \<and> distinct (referencedAssets (sample_args (sample_bundle Global False True (Some asset_a)) [asset_a, asset_b]))
   \<and> inj_on (getAssetPublicId (bundleGraph (sample_args (sample_bundle Global False True (Some asset_a)) [asset_a, asset_b])))
        (set_option (getMainEntry (bundle' (sample_args (sample_bundle Global False True (Some asset_a)) [asset_a, asset_b])))
         \<union> set (referencedAssets (sample_args (sample_bundle Global False True (Some asset_a)) [asset_a, asset_b])))
   \<and> registeredIds (sample_args (sample_bundle Global False True (Some asset_a)) [asset_a, asset_b])
       = [''a1'', ''a1'', ''b2'']
   \<and> count_list (registeredIds (sample_args (sample_bundle Global False True (Some asset_a)) [asset_a, asset_b])) ''a1'' = 2
   \<and> count_list (registeredIds (sample_args (sample_bundle Global False True (Some asset_a)) [asset_a, asset_b])) ''b2'' = 1"
  using async_global_registration [of "sample_ext False True"
          "sample_args (sample_bundle Global False True (Some asset_a)) [asset_a, asset_b]",
          OF _ _ printerInput_sample_async_global]
        sample_graph_inj
  by (simp add: sample_args_def sample_bundle_def sample_ext_def body_buildFile registeredIds_def
        registeredAssets_simps)
     (simp add: sample_graph_def asset_a_def asset_b_def)

text \<open>
  C7: for a bundle whose output format is not \<open>'global'\<close> the framing leaves the
  statements as they are, entry or not: the framed list is the input list, and so is the
  body of the tree handed to the printer.
\<close>

theorem non_global_untouched:
  "outputFormat (env (bundle' a)) \<noteq> Global \<Longrightarrow>
   frame isAsync (bundle' a) (bundleGraph a) (referencedAssets a) (parcelRequireName a)
     (body (program (ast a))) = body (program (ast a))
   \<and> (\<forall>file. printerInput ext a = Inr file \<longrightarrow> body (program file) = body (program (ast a)))"
proof
  assume ng: "outputFormat (env (bundle' a)) \<noteq> Global"
  then show fr: "frame isAsync (bundle' a) (bundleGraph a) (referencedAssets a) (parcelRequireName a)
     (body (program (ast a))) = body (program (ast a))" for isAsync
    by (simp add: frame_def)
  show "\<forall>file. printerInput ext a = Inr file \<longrightarrow> body (program file) = body (program (ast a))"
  proof (intro allI impI)
    fix tree assume "printerInput ext a = Inr tree"
    from printerInput_Inr[OF this] obtain interp where
      "tree = buildFile (bundle' a)
              (frame (\<not> isEntry ext (bundle' a) (bundleGraph a)) (bundle' a) (bundleGraph a)
                 (referencedAssets a) (parcelRequireName a) (body (program (ast a)))) interp"
      by blast
    then show "body (program tree) = body (program (ast a))"
      by (simp add: body_buildFile fr)
  qed
qed

theorem non_global_untouched_witness:
  "outputFormat (env (bundle' (sample_args (sample_bundle ESModule True True (Some asset_a)) [asset_b]))) \<noteq> Global
   \<and> printerInput (sample_ext False True) (sample_args (sample_bundle ESModule True True (Some asset_a)) [asset_b])
       = Inr (buildFile (sample_bundle ESModule True True (Some asset_a)) (body (program sample_ast)) JUndefined)
   \<and> body (program (buildFile (sample_bundle ESModule True True (Some asset_a)) (body (program sample_ast)) JUndefined))
       = [OpaqueStatement ''var $a$x = 1;'', OpaqueStatement ''$a$run($a$x);'']"
  using non_global_untouched [of "sample_args (sample_bundle ESModule True True (Some asset_a)) [asset_b]"
          True "sample_ext False True"]
        printerInput_sample_esm
  by (simp add: sample_args_def sample_bundle_def sample_ast_def)

subsection \<open>The interpreter directive\<close>

lemma printedInterpreter_eq:
  "printedInterpreter ext a = map_option interpreterDirective
     (case checkInterpreter (bundle' a) of Inl e \<Rightarrow> None | Inr i \<Rightarrow> Some i)"
  by (simp add: printedInterpreter_def printerInput_def buildFile_def Let_def split: sum.splits)

lemma checkInterpreter_fails:
  "getMainEntry b = Some m \<Longrightarrow> \<not> target_env_isBrowser b \<Longrightarrow>
   \<not> eq_null (meta_interpreter m) \<Longrightarrow> \<not> typeof_string (meta_interpreter m) \<Longrightarrow>
   checkInterpreter b = Inl AssertionError"
  by (simp add: checkInterpreter_def Let_def)

lemma generate_invariant_fails:
  "checkInterpreter (bundle' a) = Inl e \<Longrightarrow> generate ext a w = (Inl e, w)"
  by (simp add: generate_def printerInput_def)

text \<open>
  C4, as stated: with a main entry and a non-browser target, a string value of the
  interpreter is attached as the directive. The empty string is a string and is not
  attached: line 99 tests the value's truthiness.
\<close>

theorem empty_interpreter_not_attached:
  "getMainEntry (bundle' (sample_args (sample_bundle CommonJS False False (Some asset_d)) [])) = Some asset_d
   \<and> \<not> target_env_isBrowser (bundle' (sample_args (sample_bundle CommonJS False False (Some asset_d)) []))
   \<and> typeof_string (meta_interpreter asset_d)
   \<and> printedInterpreter (sample_ext True True)
        (sample_args (sample_bundle CommonJS False False (Some asset_d)) []) = Some None"
  by (simp add: printedInterpreter_eq checkInterpreter_def interpreterDirective_def Let_def
        sample_defs)

text \<open>
  C4, amended: if the bundle has a main entry, the target is not a browser and the main
  entry's interpreter value is neither absent nor a string, \<open>generate\<close> fails before the
  printer is called (the world, with its trace of calls, is as it was). When the value is
  a non-empty string, the directive is attached with that value; the empty string gives
  no directive. For a browser target or a bundle without a main entry no directive is
  attached.
\<close>

theorem interpreter_directive:
  "(\<forall>m. getMainEntry (bundle' a) = Some m \<and> \<not> target_env_isBrowser (bundle' a) \<and>
        \<not> eq_null (meta_interpreter m) \<and> \<not> typeof_string (meta_interpreter m) \<longrightarrow>
        generate ext a w = (Inl AssertionError, w))
   \<and> (\<forall>m s. getMainEntry (bundle' a) = Some m \<and> \<not> target_env_isBrowser (bundle' a) \<and>
          meta_interpreter m = JString s \<longrightarrow>
          printedInterpreter ext a = Some (if s = [] then None else Some s))
   \<and> (getMainEntry (bundle' a) = None \<or> target_env_isBrowser (bundle' a) \<longrightarrow>
          printedInterpreter ext a = Some None)"
proof (intro conjI allI impI)
  fix m
  assume "getMainEntry (bundle' a) = Some m \<and> \<not> target_env_isBrowser (bundle' a) \<and>
        \<not> eq_null (meta_interpreter m) \<and> \<not> typeof_string (meta_interpreter m)"
  then have "checkInterpreter (bundle' a) = Inl AssertionError"
    using checkInterpreter_fails by blast
  then show "generate ext a w = (Inl AssertionError, w)"
    by (rule generate_invariant_fails)
next
  fix m s
  assume "getMainEntry (bundle' a) = Some m \<and> \<not> target_env_isBrowser (bundle' a) \<and>
          meta_interpreter m = JString s"
  then show "printedInterpreter ext a = Some (if s = [] then None else Some s)"
    by (simp add: printedInterpreter_eq checkInterpreter_def interpreterDirective_def Let_def)
next
  assume "getMainEntry (bundle' a) = None \<or> target_env_isBrowser (bundle' a)"
  then have "checkInterpreter (bundle' a) = Inr JUndefined"
    by (cases "getMainEntry (bundle' a)") (auto simp: checkInterpreter_def)
  then show "printedInterpreter ext a = Some None"
    by (simp add: printedInterpreter_eq interpreterDirective_def)
qed

theorem interpreter_directive_witness:
  "generate (sample_ext True True) (sample_args (sample_bundle CommonJS True False (Some asset_c)) [])
     sample_world = (Inl AssertionError, sample_world)
   \<and> printedInterpreter (sample_ext True True)
        (sample_args (sample_bundle CommonJS True False (Some asset_b)) [])
       = Some (Some ''/usr/bin/env node'')
   \<and> printedInterpreter (sample_ext True True)
        (sample_args (sample_bundle CommonJS True True (Some asset_b)) []) = Some None
   \<and> printedInterpreter (sample_ext True True)
        (sample_args (sample_bundle CommonJS True False None) []) = Some None"
  using interpreter_directive [of "sample_args (sample_bundle CommonJS True False (Some asset_c)) []"
          "sample_ext True True" sample_world]
        interpreter_directive [of "sample_args (sample_bundle CommonJS True False (Some asset_b)) []"
          "sample_ext True True" sample_world]
        interpreter_directive [of "sample_args (sample_bundle CommonJS True True (Some asset_b)) []"
          "sample_ext True True" sample_world]
        interpreter_directive [of "sample_args (sample_bundle CommonJS True False None) []"
          "sample_ext True True" sample_world]
  by (simp add: sample_args_def sample_bundle_def asset_b_def asset_c_def)

subsection \<open>The source map\<close>

lemma traversals_emit_BabelGenerate:
  "traversals (emit (BabelGenerate tree opts) w) = traversals w"
  by (simp add: traversals_def emit_def)

lemma generate_without_assembly:
  assumes "printerInput ext a = Inr tree"
    and "\<not> (sourceMap (env (bundle' a)) \<and>
             rawMappings (babelGenerate ext tree (generatorOptions (bundle' a))) \<noteq> None)"
  shows "generate ext a w =
           (Inr \<lparr>contents = code (babelGenerate ext tree (generatorOptions (bundle' a))),
                 result_map = None\<rparr>,
            emit (BabelGenerate tree (generatorOptions (bundle' a))) w)"
  using assms by (auto simp: generate_def Let_def)

lemma generate_fails_early:
  "printerInput ext a = Inl e \<Longrightarrow> generate ext a w = (Inl e, w)"
  by (simp add: generate_def)

text \<open>
  C5: if the bundle's source map flag is false, the returned map is null, and the call
  neither traverses the bundle's assets nor fetches an asset's map: the trace gains no
  such call and the assets' maps are as they were.
\<close>

theorem no_map_when_disabled:
  assumes "\<not> sourceMap (env (bundle' a))"
    and "generate ext a w = (r, w')"
  shows "(\<forall>res. r = Inr res \<longrightarrow> result_map res = None)
         \<and> traversals w' = traversals w \<and> assetMaps w' = assetMaps w"
proof (cases "printerInput ext a")
  case (Inl e)
  from generate_fails_early[OF this, of w] assms(2) show ?thesis by auto
next
  case (Inr tree)
  from generate_without_assembly[OF this, of w] assms
  show ?thesis by (auto simp: traversals_def emit_def)
qed

lemma generate_sample_disabled:
  "generate (sample_ext False True) (sample_args (sample_bundle Global False True (Some asset_a)) [asset_b])
     sample_world
   = (Inr \<lparr>contents = ''/* bundle */'', result_map = None\<rparr>,
      emit (BabelGenerate
              (buildFile (sample_bundle Global False True (Some asset_a))
                 [REGISTER_TEMPLATE (body (program sample_ast))
                    (ArrayExpression [StringLiteral ''a1'', StringLiteral ''b2''])
                    (Identifier ''parcelRequire'')] JUndefined)
              \<lparr>sourceMaps = False, minified = False, comments = True\<rparr>) sample_world)"
proof -
  have p: "printerInput (sample_ext False True)
             (sample_args (sample_bundle Global False True (Some asset_a)) [asset_b])
           = Inr (buildFile (sample_bundle Global False True (Some asset_a))
                 [REGISTER_TEMPLATE (body (program sample_ast))
                    (ArrayExpression [StringLiteral ''a1'', StringLiteral ''b2''])
                    (Identifier ''parcelRequire'')] JUndefined)"
    by (simp add: printerInput_def checkInterpreter_def frame_def REFERENCED_IDS_def
          registeredAssets_simps sample_defs)
  have n: "\<not> (sourceMap (env (bundle' (sample_args (sample_bundle Global False True (Some asset_a)) [asset_b])))
             \<and> rawMappings (babelGenerate (sample_ext False True)
                   (buildFile (sample_bundle Global False True (Some asset_a))
                     [REGISTER_TEMPLATE (body (program sample_ast))
                        (ArrayExpression [StringLiteral ''a1'', StringLiteral ''b2''])
                        (Identifier ''parcelRequire'')] JUndefined)
                   (generatorOptions (bundle' (sample_args (sample_bundle Global False True (Some asset_a)) [asset_b]))))
                 \<noteq> None)"
    by (simp add: sample_args_def sample_bundle_def)
  show ?thesis
    unfolding generate_without_assembly[OF p n]
    by (simp add: generatorOptions_def sample_args_def sample_bundle_def sample_ext_def
          sample_printer_def)
qed

theorem no_map_when_disabled_witness:
  "\<not> sourceMap (env (bundle' (sample_args (sample_bundle Global False True (Some asset_a)) [asset_b])))
   \<and> (\<exists>res w'. generate (sample_ext False True)
            (sample_args (sample_bundle Global False True (Some asset_a)) [asset_b]) sample_world
          = (Inr res, w')
        \<and> result_map res = None \<and> traversals w' = traversals sample_world
        \<and> assetMaps w' = assetMaps sample_world)"
  using no_map_when_disabled [OF _ generate_sample_disabled]
  by (simp add: generate_sample_disabled) (simp add: sample_args_def sample_bundle_def)

text \<open>
  C10: if the source map flag is true and the printer returns no raw mappings, the call
  succeeds with a null map, and it neither traverses the bundle's assets nor fetches an
  asset's map.
\<close>

theorem no_map_without_raw_mappings:
  assumes "sourceMap (env (bundle' a))"
    and "printerInput ext a = Inr tree"
    and "rawMappings (babelGenerate ext tree (generatorOptions (bundle' a))) = None"
  shows "generate ext a w =
           (Inr \<lparr>contents = code (babelGenerate ext tree (generatorOptions (bundle' a))),
                 result_map = None\<rparr>,
            emit (BabelGenerate tree (generatorOptions (bundle' a))) w)
         \<and> traversals (snd (generate ext a w)) = traversals w
         \<and> assetMaps (snd (generate ext a w)) = assetMaps w"
proof -
  have "\<not> (sourceMap (env (bundle' a)) \<and>
             rawMappings (babelGenerate ext tree (generatorOptions (bundle' a))) \<noteq> None)"
    using assms(3) by simp
  from generate_without_assembly[OF assms(2) this, of w]
  show ?thesis by (simp add: traversals_def emit_def)
qed

lemma printerInput_sample_silent:
  "printerInput (sample_ext False withMappings)
     (sample_args (sample_bundle Global True True (Some asset_a)) [asset_b])
   = Inr (buildFile (sample_bundle Global True True (Some asset_a))
            [REGISTER_TEMPLATE (body (program sample_ast))
               (ArrayExpression [StringLiteral ''a1'', StringLiteral ''b2''])
               (Identifier ''parcelRequire'')] JUndefined)"
  by (simp add: printerInput_def checkInterpreter_def frame_def REFERENCED_IDS_def
        registeredAssets_simps sample_defs)

theorem no_map_without_raw_mappings_witness:
  "sourceMap (env (bundle' (sample_args (sample_bundle Global True True (Some asset_a)) [asset_b])))
   \<and> rawMappings (babelGenerate (sample_ext False False)
         (buildFile (sample_bundle Global True True (Some asset_a))
            [REGISTER_TEMPLATE (body (program sample_ast))
               (ArrayExpression [StringLiteral ''a1'', StringLiteral ''b2''])
               (Identifier ''parcelRequire'')] JUndefined)
         (generatorOptions (bundle' (sample_args (sample_bundle Global True True (Some asset_a)) [asset_b]))))
       = None
   \<and> fst (generate (sample_ext False False)
            (sample_args (sample_bundle Global True True (Some asset_a)) [asset_b]) sample_world)
       = Inr \<lparr>contents = ''/* bundle */'', result_map = None\<rparr>
   \<and> traversals (snd (generate (sample_ext False False)
            (sample_args (sample_bundle Global True True (Some asset_a)) [asset_b]) sample_world))
       = []"
proof -
  have h1: "sourceMap (env (bundle' (sample_args (sample_bundle Global True True (Some asset_a)) [asset_b])))"
    by (simp add: sample_args_def sample_bundle_def)
  have h3: "rawMappings (babelGenerate (sample_ext False False)
         (buildFile (sample_bundle Global True True (Some asset_a))
            [REGISTER_TEMPLATE (body (program sample_ast))
               (ArrayExpression [StringLiteral ''a1'', StringLiteral ''b2''])
               (Identifier ''parcelRequire'')] JUndefined)
         (generatorOptions (bundle' (sample_args (sample_bundle Global True True (Some asset_a)) [asset_b]))))
       = None"
    by (simp add: sample_ext_def sample_printer_def)
  have c: "code (babelGenerate (sample_ext False False) tree opts) = ''/* bundle */''" for tree opts
    by (simp add: sample_ext_def sample_printer_def)
  have t: "traversals sample_world = []"
    by (simp add: traversals_def sample_world_def)
  from no_map_without_raw_mappings [OF h1 printerInput_sample_silent h3, of sample_world]
  show ?thesis using h1 h3 by (simp add: c t traversals_emit_BabelGenerate)
qed

subsection \<open>The wrapper at run time\<close>

lemma bundleWrapper_executed:
  "executed s \<Longrightarrow> bundleWrapper (Suc depth) B s = Some (Normal s)"
  by simp

lemma bundleWrapper_sets_flag:
  "bundleWrapper depth B s = Some (Normal t) \<Longrightarrow> executed t"
proof (cases depth)
  case 0
  assume "bundleWrapper depth B s = Some (Normal t)"
  with 0 show ?thesis by simp
next
  case (Suc d)
  assume r: "bundleWrapper depth B s = Some (Normal t)"
  show ?thesis
  proof (cases "executed s")
    case True
    with r Suc show ?thesis by simp
  next
    case False
    with r Suc show ?thesis
      by (auto split: option.splits completion.splits)
  qed
qed

lemma invoke_executed:
  "executed s \<Longrightarrow> invoke (Suc depth) k B s = Some s"
  by (induction k) simp_all

lemma bundleWrapper_plain:
  assumes "completed s = (if executed s then 1 else 0)"
  shows "\<exists>t. (bundleWrapper (Suc depth) (plain f) s = Some (Normal t)
              \<or> bundleWrapper (Suc depth) (plain f) s = Some (Throw t))
             \<and> completed t = (if executed t then 1 else 0)"
proof (cases "executed s")
  case True
  with assms show ?thesis by simp
next
  case False
  with assms show ?thesis
    by (cases "f (heap s)") (simp_all add: plain_def)
qed

lemma invoke_plain:
  "completed s = (if executed s then 1 else 0) \<Longrightarrow>
   \<exists>t. invoke (Suc depth) k (plain f) s = Some t \<and> completed t = (if executed t then 1 else 0)"
proof (induction k arbitrary: s)
  case 0
  then show ?case by simp
next
  case (Suc k)
  from bundleWrapper_plain[OF Suc.prems, of depth f] obtain u where
    u: "bundleWrapper (Suc depth) (plain f) s = Some (Normal u)
        \<or> bundleWrapper (Suc depth) (plain f) s = Some (Throw u)"
    and i: "completed u = (if executed u then 1 else 0)"
    by blast
  from Suc.IH[OF i] obtain t where
    "invoke (Suc depth) k (plain f) u = Some t" "completed t = (if executed t then 1 else 0)"
    by blast
  with u show ?case by auto
qed

text \<open>
  C9, as stated: however often the wrapper is invoked, the wrapped statements are executed
  at most once, and after the first completed invocation has set the flag every later
  invocation returns without running the body. Statements that throw leave the function
  before line 36 sets the flag, so a second invocation runs them again. Statements that
  call the wrapper before they reach line 36 find the flag unset and run again inside
  that call: one invocation from outside completes them twice. Statements that clear the
  flag after a completed invocation make the invocation that follows run them again.
\<close>

theorem wrapped_statements_run_again:
  "invoke 1 2 throwing_statements (fresh_wrapper [])
     = Some \<lparr>executed = False, heap = [''run'', ''run''], started = 2, completed = 0\<rparr>
   \<and> bundleWrapper 2 reentrant_statements (fresh_wrapper [])
     = Some (Normal \<lparr>executed = True, heap = [''start'', ''start'', ''end'', ''end''],
                     started = 2, completed = 2\<rparr>)
   \<and> bundleWrapper 2 resetting_statements (fresh_wrapper [])
     = Some (Normal \<lparr>executed = True,
                     heap = [''start'', ''start'', ''end'', ''reset'', ''start'', ''end'', ''end''],
                     started = 3, completed = 3\<rparr>)"
  by (simp add: numeral_2_eq_2 throwing_statements_def reentrant_statements_def
        resetting_statements_def log_line_def fresh_wrapper_def)

text \<open>
  C9, amended: when the wrapped statements neither call the wrapper nor assign its flag,
  invoking the wrapper any number of times runs them to completion at most once. For any
  statements, an invocation that finds the executed flag set returns without running the
  body, whatever the body is, and an invocation that completes leaves the flag set: after
  a completed invocation, every later invocation made while the flag is still set, and so
  any number of invocations made one after the other from outside the statements, returns
  without running the body.
\<close>

theorem executed_flag_guards_the_body:
  "(\<exists>t. invoke (Suc depth) k (plain f) (fresh_wrapper h) = Some t \<and> completed t \<le> 1)
   \<and> (executed u \<longrightarrow> bundleWrapper (Suc depth) B u = Some (Normal u))
   \<and> (bundleWrapper d B s = Some (Normal s') \<longrightarrow>
        executed s' \<and> invoke (Suc depth) k B' s' = Some s')"
proof (intro conjI impI)
  have "completed (fresh_wrapper h) = (if executed (fresh_wrapper h) then 1 else 0)"
    by (simp add: fresh_wrapper_def)
  from invoke_plain[OF this, of depth k f] obtain t where
    "invoke (Suc depth) k (plain f) (fresh_wrapper h) = Some t"
    "completed t = (if executed t then 1 else 0)"
    by blast
  then show "\<exists>t. invoke (Suc depth) k (plain f) (fresh_wrapper h) = Some t \<and> completed t \<le> 1"
    by auto
next
  assume "executed u"
  then show "bundleWrapper (Suc depth) B u = Some (Normal u)"
    by (rule bundleWrapper_executed)
next
  assume "bundleWrapper d B s = Some (Normal s')"
  then show e: "executed s'"
    by (rule bundleWrapper_sets_flag)
  then show "invoke (Suc depth) k B' s' = Some s'"
    by (rule invoke_executed)
qed

theorem executed_flag_guards_the_body_witness:
  "invoke (Suc 0) 3 (plain logging) (fresh_wrapper [])
     = Some \<lparr>executed = True, heap = [''run''], started = 1, completed = 1\<rparr>
   \<and> bundleWrapper 2 reentrant_statements (fresh_wrapper [])
     = Some (Normal \<lparr>executed = True, heap = [''start'', ''start'', ''end'', ''end''],
                     started = 2, completed = 2\<rparr>)
   \<and> executed \<lparr>executed = True, heap = [''start'', ''start'', ''end'', ''end''],
                 started = 2, completed = 2\<rparr>
   \<and> bundleWrapper (Suc 0) reentrant_statements
        \<lparr>executed = True, heap = [''start'', ''start'', ''end'', ''end''], started = 2, completed = 2\<rparr>
     = Some (Normal \<lparr>executed = True, heap = [''start'', ''start'', ''end'', ''end''],
                     started = 2, completed = 2\<rparr>)
   \<and> invoke (Suc 0) 3 resetting_statements
        \<lparr>executed = True, heap = [''start'', ''start'', ''end'', ''end''], started = 2, completed = 2\<rparr>
     = Some \<lparr>executed = True, heap = [''start'', ''start'', ''end'', ''end''],
             started = 2, completed = 2\<rparr>"
proof -
  let ?t = "\<lparr>executed = True, heap = [''start'', ''start'', ''end'', ''end''],
             started = 2, completed = 2\<rparr> :: string list wrapper_state"
  have r: "bundleWrapper 2 reentrant_statements (fresh_wrapper []) = Some (Normal ?t)"
    by (simp add: numeral_2_eq_2 reentrant_statements_def log_line_def fresh_wrapper_def)
  have p: "invoke (Suc 0) 3 (plain logging) (fresh_wrapper [])
     = Some \<lparr>executed = True, heap = [''run''], started = 1, completed = 1\<rparr>"
    by (simp add: numeral_3_eq_3 plain_def logging_def fresh_wrapper_def)
  note t = executed_flag_guards_the_body
             [where depth = 0 and k = 3 and f = logging and h = "[]" and u = ?t
                and B = reentrant_statements and d = 2 and s = "fresh_wrapper []"
                and s' = ?t and B' = resetting_statements]
  from t r p show ?thesis by simp
qed

subsection \<open>The assembly of the source map\<close>

lemma assetMaps_emit: "assetMaps (emit c w) = assetMaps w"
  by (simp add: emit_def)

lemma fetchAndAttach_no_map:
  "assetMaps w (asset_id asset) = Inr None \<Longrightarrow>
   fetchAndAttach ext asset w = (Inr (), emit (GetMap (asset_id asset)) w)"
  by (simp add: fetchAndAttach_def)

lemma runQueue_no_maps:
  "\<forall>x \<in> set xs. assetMaps w (asset_id x) = Inr None \<Longrightarrow>
   \<exists>w'. runQueue (map (fetchAndAttach ext) xs) w = (Inr (), w') \<and> assetMaps w' = assetMaps w"
proof (induction xs arbitrary: w)
  case Nil
  show ?case by simp
next
  case (Cons x xs)
  then have x: "assetMaps w (asset_id x) = Inr None" by simp
  have "\<forall>y \<in> set xs. assetMaps (emit (GetMap (asset_id x)) w) (asset_id y) = Inr None"
    using Cons.prems by (simp add: assetMaps_emit)
  from Cons.IH[OF this] obtain w' where
    "runQueue (map (fetchAndAttach ext) xs) (emit (GetMap (asset_id x)) w) = (Inr (), w')"
    "assetMaps w' = assetMaps w"
    by (auto simp: assetMaps_emit)
  then show ?case by (simp add: fetchAndAttach_no_map[OF x])
qed

lemma attachContents_other:
  "attachContents aid srcs cs i m w = (r, w') \<Longrightarrow> j \<noteq> aid \<Longrightarrow> assetMaps w' j = assetMaps w j"
proof (induction aid srcs cs i m w arbitrary: r w' rule: attachContents.induct)
  case (1 aid srcs i m w)
  then show ?case by simp
next
  case (2 aid srcs sourceContent rest i m w)
  show ?case
  proof (cases sourceContent)
    case None
    with 2 show ?thesis by simp
  next
    case (Some c)
    show ?thesis
    proof (cases "truthy (JString c)")
      case False
      with 2 Some show ?thesis by simp
    next
      case True
      show ?thesis
      proof (cases "i < length srcs")
        case False
        with 2 Some True show ?thesis by simp
      next
        case l: True
        let ?m = "setSourceContent (srcs ! i) c m"
        let ?w = "emit (ConsoleLog [''setSourceContent'', srcs ! i])
                    (w\<lparr>assetMaps := (assetMaps w)(aid := Inr (Some ?m))\<rparr>)"
        from "2.prems"(1) Some True l
        have "attachContents aid srcs rest (Suc i) ?m ?w = (r, w')"
          by (simp add: Let_def)
        from "2.IH"(3)[OF Some _ _ refl refl refl this "2.prems"(2)] True l
        have "assetMaps w' j = assetMaps ?w j" by simp
        with "2.prems"(2) show ?thesis by (simp add: assetMaps_emit)
      qed
    qed
  qed
qed


lemma fetchAndAttach_other:
  assumes "fetchAndAttach ext x w = (r, w')" and "j \<noteq> asset_id x"
  shows "assetMaps w' j = assetMaps w j"
proof (cases "assetMaps w (asset_id x)")
  case (Inl e)
  with assms show ?thesis by (auto simp: fetchAndAttach_def assetMaps_emit)
next
  case (Inr mo)
  show ?thesis
  proof (cases mo)
    case None
    with Inr assms show ?thesis by (auto simp: fetchAndAttach_def assetMaps_emit)
  next
    case (Some m)
    show ?thesis
    proof (cases "toVLQ ext m")
      case (Inl e)
      with Inr Some assms show ?thesis by (auto simp: fetchAndAttach_def assetMaps_emit)
    next
      case v: (Inr vlq)
      show ?thesis
      proof (cases "sourcesContent vlq")
        case None
        with Inr Some v assms show ?thesis by (auto simp: fetchAndAttach_def assetMaps_emit)
      next
        case c: (Some cs)
        from assms(1) Inr Some v c
        have "attachContents (asset_id x) (sources vlq) cs 0 m (emit (GetMap (asset_id x)) w) = (r, w')"
          by (simp add: fetchAndAttach_def)
        from attachContents_other[OF this assms(2)] show ?thesis
          by (simp add: assetMaps_emit)
      qed
    qed
  qed
qed

lemma fetchOrDecodeFails_cong:
  "assetMaps w' (asset_id x) = assetMaps w (asset_id x) \<Longrightarrow>
   fetchOrDecodeFails ext w' x = fetchOrDecodeFails ext w x"
  by (simp add: fetchOrDecodeFails_def)

lemma fetchAndAttach_fails:
  "fetchOrDecodeFails ext w x \<Longrightarrow> \<exists>e. fetchAndAttach ext x w = (Inl e, emit (GetMap (asset_id x)) w)"
  by (cases "assetMaps w (asset_id x)")
     (auto simp: fetchOrDecodeFails_def fetchAndAttach_def Let_def split: sum.splits option.splits)

lemma runQueue_fails:
  "distinct (map asset_id xs) \<Longrightarrow> x \<in> set xs \<Longrightarrow> fetchOrDecodeFails ext w x \<Longrightarrow>
   \<exists>e w'. runQueue (map (fetchAndAttach ext) xs) w = (Inl e, w')"
proof (induction xs arbitrary: w)
  case Nil
  then show ?case by simp
next
  case (Cons y ys)
  obtain r w1 where u: "fetchAndAttach ext y w = (r, w1)"
    by (cases "fetchAndAttach ext y w")
  show ?case
  proof (cases r)
    case (Inl e)
    with u show ?thesis by simp
  next
    case (Inr ok)
    have "x \<noteq> y"
    proof
      assume "x = y"
      with Cons.prems(3) fetchAndAttach_fails[of ext w y] u Inr show False by auto
    qed
    with Cons.prems(2) have xs: "x \<in> set ys"
      by simp
    have "asset_id y \<notin> asset_id ` set ys"
      using Cons.prems(1) by simp
    moreover have "asset_id x \<in> asset_id ` set ys"
      using xs by (rule imageI)
    ultimately have ne: "asset_id x \<noteq> asset_id y"
      by auto
    have "fetchOrDecodeFails ext w1 x = fetchOrDecodeFails ext w x"
      using fetchAndAttach_other[OF u ne] by (rule fetchOrDecodeFails_cong)
    with Cons.prems(3) have "fetchOrDecodeFails ext w1 x"
      by simp
    from Cons.IH[OF _ xs this] Cons.prems(1)
    obtain e w' where "runQueue (map (fetchAndAttach ext) ys) w1 = (Inl e, w')"
      by auto
    with u Inr show ?thesis by simp
  qed
qed

lemma generate_assembles:
  assumes "sourceMap (env (bundle' a))"
    and "printerInput ext a = Inr tree"
    and "rawMappings (babelGenerate ext tree (generatorOptions (bundle' a))) = Some ms"
  shows "generate ext a w =
     (case runQueue (map (fetchAndAttach ext) (assets (bundle' a)))
             (emit TraverseAssets (emit (BabelGenerate tree (generatorOptions (bundle' a))) w)) of
        (Inl e, w3) \<Rightarrow> (Inl e, w3)
      | (Inr u, w3) \<Rightarrow>
          (Inr \<lparr>contents = code (babelGenerate ext tree (generatorOptions (bundle' a))),
                result_map = Some (addIndexedMappings ms (new_SourceMap (projectRoot (options a))))\<rparr>,
           w3))"
  using assms by (simp add: generate_def Let_def)


lemma generate_output_map:
  assumes "generate ext a w = (Inr res, w')" and "result_map res = Some m"
  shows "\<exists>tree ms. printerInput ext a = Inr tree
           \<and> rawMappings (babelGenerate ext tree (generatorOptions (bundle' a))) = Some ms
           \<and> m = addIndexedMappings ms (new_SourceMap (projectRoot (options a)))"
  using assms
  by (cases "printerInput ext a")
     (auto simp: generate_def Let_def split: if_splits prod.splits sum.splits)

lemma generate_output_map_no_content:
  "generate ext a w = (Inr res, w') \<Longrightarrow> result_map res = Some m \<Longrightarrow> contentOf m = Map.empty"
  by (drule (1) generate_output_map) (auto simp: addIndexedMappings_def new_SourceMap_def)

text \<open>
  C6: an asset whose fetch gives no map is passed over and the queue goes on with the
  remaining units; when no asset of the bundle has a map the call returns the map built
  from the raw mappings. When the fetch of some asset's map rejects, or the decoding of
  its map throws, the call fails as a whole: it returns an error and no map. (The assets
  that the traversal visits are distinct objects.)
\<close>

theorem assembly_skips_missing_map_and_fails_whole:
  "(assetMaps w (asset_id asset) = Inr None \<longrightarrow>
      runQueue (map (fetchAndAttach ext) (asset # rest)) w
        = runQueue (map (fetchAndAttach ext) rest) (emit (GetMap (asset_id asset)) w))
   \<and> (sourceMap (env (bundle' a)) \<and> printerInput ext a = Inr tree \<and>
        rawMappings (babelGenerate ext tree (generatorOptions (bundle' a))) = Some ms \<longrightarrow>
        ((\<forall>x \<in> set (assets (bundle' a)). assetMaps w (asset_id x) = Inr None) \<longrightarrow>
           fst (generate ext a w) =
             Inr \<lparr>contents = code (babelGenerate ext tree (generatorOptions (bundle' a))),
                  result_map = Some (addIndexedMappings ms (new_SourceMap (projectRoot (options a))))\<rparr>)
        \<and> (distinct (map asset_id (assets (bundle' a))) \<and>
             (\<exists>x \<in> set (assets (bundle' a)). fetchOrDecodeFails ext w x) \<longrightarrow>
             (\<exists>e w'. generate ext a w = (Inl e, w'))))"
proof (intro conjI impI)
  assume "assetMaps w (asset_id asset) = Inr None"
  then show "runQueue (map (fetchAndAttach ext) (asset # rest)) w
        = runQueue (map (fetchAndAttach ext) rest) (emit (GetMap (asset_id asset)) w)"
    by (simp add: fetchAndAttach_no_map)
next
  assume g: "sourceMap (env (bundle' a)) \<and> printerInput ext a = Inr tree \<and>
        rawMappings (babelGenerate ext tree (generatorOptions (bundle' a))) = Some ms"
  let ?w2 = "emit TraverseAssets (emit (BabelGenerate tree (generatorOptions (bundle' a))) w)"
  assume "\<forall>x \<in> set (assets (bundle' a)). assetMaps w (asset_id x) = Inr None"
  then have "\<forall>x \<in> set (assets (bundle' a)). assetMaps ?w2 (asset_id x) = Inr None"
    by (simp add: assetMaps_emit)
  from runQueue_no_maps[OF this] obtain w' where
    "runQueue (map (fetchAndAttach ext) (assets (bundle' a))) ?w2 = (Inr (), w')"
    by blast
  with g show "fst (generate ext a w) =
             Inr \<lparr>contents = code (babelGenerate ext tree (generatorOptions (bundle' a))),
                  result_map = Some (addIndexedMappings ms (new_SourceMap (projectRoot (options a))))\<rparr>"
    by (simp add: generate_assembles)
next
  assume g: "sourceMap (env (bundle' a)) \<and> printerInput ext a = Inr tree \<and>
        rawMappings (babelGenerate ext tree (generatorOptions (bundle' a))) = Some ms"
  let ?w2 = "emit TraverseAssets (emit (BabelGenerate tree (generatorOptions (bundle' a))) w)"
  assume f: "distinct (map asset_id (assets (bundle' a))) \<and>
             (\<exists>x \<in> set (assets (bundle' a)). fetchOrDecodeFails ext w x)"
  then obtain x where x: "x \<in> set (assets (bundle' a))" "fetchOrDecodeFails ext w x"
    by blast
  have "fetchOrDecodeFails ext ?w2 x = fetchOrDecodeFails ext w x"
    by (rule fetchOrDecodeFails_cong) (simp add: assetMaps_emit)
  with x have "fetchOrDecodeFails ext ?w2 x" by simp
  from runQueue_fails[OF _ x(1) this] f obtain e w' where
    "runQueue (map (fetchAndAttach ext) (assets (bundle' a))) ?w2 = (Inl e, w')"
    by blast
  with g show "\<exists>e w'. generate ext a w = (Inl e, w')"
    by (simp add: generate_assembles)
qed


lemma sample_raw_mappings:
  "rawMappings (babelGenerate (sample_ext False True) tree
      (generatorOptions (bundle' (sample_args (sample_bundle Global True True (Some asset_a)) [asset_b]))))
   = Some [\<lparr>generated = (1, 0), original = Some (1, 0), source = Some ''src/a.js''\<rparr>]"
  by (simp add: sample_ext_def sample_printer_def generatorOptions_def sample_args_def
        sample_bundle_def)

lemma sample_source_maps_on:
  "sourceMap (env (bundle' (sample_args (sample_bundle Global True True (Some asset_a)) [asset_b])))"
  by (simp add: sample_args_def sample_bundle_def)

lemma sample_code:
  "code (babelGenerate (sample_ext False True) tree opts) = ''/* bundle */''"
  by (simp add: sample_ext_def sample_printer_def)

theorem assembly_skips_missing_map_and_fails_whole_witness:
  "assetMaps sample_world (asset_id asset_b) = Inr None
   \<and> runQueue (map (fetchAndAttach (sample_ext False True)) [asset_b]) sample_world
       = (Inr (), emit (GetMap 2) sample_world)
   \<and> assets (bundle' (sample_args (sample_bundle Global True True (Some asset_a)) [asset_b]))
       = [asset_a, asset_b]
   \<and> assetMaps mapless_world (asset_id asset_a) = Inr None
   \<and> assetMaps mapless_world (asset_id asset_b) = Inr None
   \<and> fst (generate (sample_ext False True)
            (sample_args (sample_bundle Global True True (Some asset_a)) [asset_b]) mapless_world)
       = Inr \<lparr>contents = ''/* bundle */'',
              result_map = Some \<lparr>root = ''/project'',
                 indexedMappings = [\<lparr>generated = (1, 0), original = Some (1, 0), source = Some ''src/a.js''\<rparr>],
                 contentOf = Map.empty\<rparr>\<rparr>
   \<and> distinct (map asset_id (assets (bundle' (sample_args (sample_bundle Global True True (Some asset_a)) [asset_b]))))
   \<and> asset_b \<in> set (assets (bundle' (sample_args (sample_bundle Global True True (Some asset_a)) [asset_b])))
   \<and> fetchOrDecodeFails (sample_ext False True) broken_world asset_b
   \<and> (\<exists>e w'. generate (sample_ext False True)
            (sample_args (sample_bundle Global True True (Some asset_a)) [asset_b]) broken_world
          = (Inl e, w'))"
proof -
  let ?E = "sample_ext False True"
  let ?A = "sample_args (sample_bundle Global True True (Some asset_a)) [asset_b]"
  have n: "assetMaps sample_world (asset_id asset_b) = Inr None"
    by (simp add: sample_world_def asset_b_def)
  have q: "\<forall>x \<in> set (assets (bundle' ?A)). assetMaps mapless_world (asset_id x) = Inr None"
    by (simp add: mapless_world_def)
  have d: "distinct (map asset_id (assets (bundle' ?A)))"
    by (simp add: sample_args_def sample_bundle_def asset_a_def asset_b_def)
  have m: "asset_b \<in> set (assets (bundle' ?A))"
    by (simp add: sample_args_def sample_bundle_def)
  have f: "fetchOrDecodeFails ?E broken_world asset_b"
    by (simp add: fetchOrDecodeFails_def broken_world_def asset_b_def sample_ext_def
          sample_toVLQ_def new_SourceMap_def)
  note t = assembly_skips_missing_map_and_fails_whole
             [of _ _ ?E _ ?A _ "[\<lparr>generated = (1, 0), original = Some (1, 0), source = Some ''src/a.js''\<rparr>]"]
  have 1: "runQueue (map (fetchAndAttach ?E) [asset_b]) sample_world
           = (Inr (), emit (GetMap 2) sample_world)"
    using t [of sample_world asset_b "[]"] n by (simp add: asset_b_def)
  have 2: "fst (generate ?E ?A mapless_world)
       = Inr \<lparr>contents = ''/* bundle */'',
              result_map = Some \<lparr>root = ''/project'',
                 indexedMappings = [\<lparr>generated = (1, 0), original = Some (1, 0), source = Some ''src/a.js''\<rparr>],
                 contentOf = Map.empty\<rparr>\<rparr>"
    using t [of mapless_world asset_b "[]"] q sample_source_maps_on printerInput_sample_silent
      sample_raw_mappings
    by (simp add: sample_code addIndexedMappings_def new_SourceMap_def)
       (simp add: sample_args_def)
  have 3: "\<exists>e w'. generate ?E ?A broken_world = (Inl e, w')"
    using t [of broken_world asset_b "[]"] d m f sample_source_maps_on printerInput_sample_silent
      sample_raw_mappings
    by blast
  have a: "assets (bundle' ?A) = [asset_a, asset_b]"
    by (simp add: sample_args_def sample_bundle_def)
  have qa: "assetMaps mapless_world (asset_id asset_a) = Inr None"
    and qb: "assetMaps mapless_world (asset_id asset_b) = Inr None"
    by (simp_all add: mapless_world_def)
  from n 1 a qa qb 2 d m f 3 show ?thesis by blast
qed

lemma sample_unit_a:
  "fetchAndAttach (sample_ext False True) asset_a (w\<lparr>assetMaps := assetMaps sample_world\<rparr>)
   = (Inr (),
      emit (ConsoleLog [''setSourceContent'', ''src/a.js''])
        (emit (GetMap 1)
           (w\<lparr>assetMaps := (assetMaps sample_world)
                 (1 := Inr (Some (setSourceContent ''src/a.js'' ''let a = 1;''
                                    (new_SourceMap ''/project''))))\<rparr>)))"
  by (simp add: fetchAndAttach_def sample_world_def asset_a_def sample_ext_def sample_toVLQ_def
        new_SourceMap_def emit_def Let_def)

lemma sample_unit_b:
  "assetMaps w 2 = Inr None \<Longrightarrow>
   fetchAndAttach (sample_ext False True) asset_b w = (Inr (), emit (GetMap 2) w)"
  by (simp add: fetchAndAttach_def asset_b_def)

text \<open>
  C2: the content of an asset's source is attached to the returned map under its source
  path. Here asset 1 has a map that decodes to the source \<open>src/a.js\<close> with the content
  \<open>let a = 1;\<close>. The call succeeds and the returned map holds the raw mapping and no
  content at all: line 131 has set the content on the asset's own map, which the
  \<open>map\<close> of line 120 names inside the unit.
\<close>

theorem asset_content_missing_from_returned_map:
  "assetMaps sample_world (asset_id asset_a) = Inr (Some (new_SourceMap ''/project''))
   \<and> toVLQ (sample_ext False True) (new_SourceMap ''/project'')
       = Inr \<lparr>sources = [''src/a.js'', ''src/empty.js''],
              sourcesContent = Some [Some ''let a = 1;'', Some []]\<rparr>
   \<and> fst (generate (sample_ext False True)
            (sample_args (sample_bundle Global True True (Some asset_a)) [asset_b]) sample_world)
       = Inr \<lparr>contents = ''/* bundle */'',
              result_map = Some \<lparr>root = ''/project'',
                 indexedMappings = [\<lparr>generated = (1, 0), original = Some (1, 0), source = Some ''src/a.js''\<rparr>],
                 contentOf = Map.empty\<rparr>\<rparr>
   \<and> assetMaps (snd (generate (sample_ext False True)
            (sample_args (sample_bundle Global True True (Some asset_a)) [asset_b]) sample_world)) 1
       = Inr (Some \<lparr>root = ''/project'', indexedMappings = [],
                    contentOf = [''src/a.js'' \<mapsto> ''let a = 1;'']\<rparr>)"
proof -
  let ?E = "sample_ext False True"
  let ?A = "sample_args (sample_bundle Global True True (Some asset_a)) [asset_b]"
  let ?tree = "buildFile (sample_bundle Global True True (Some asset_a))
            [REGISTER_TEMPLATE (body (program sample_ast))
               (ArrayExpression [StringLiteral ''a1'', StringLiteral ''b2''])
               (Identifier ''parcelRequire'')] JUndefined"
  let ?w2 = "emit TraverseAssets (emit (BabelGenerate ?tree (generatorOptions (bundle' ?A))) sample_world)"
  have w2: "?w2 = ?w2\<lparr>assetMaps := assetMaps sample_world\<rparr>"
    by (simp add: emit_def)
  have a: "assets (bundle' ?A) = [asset_a, asset_b]"
    by (simp add: sample_args_def sample_bundle_def)
  have q: "runQueue (map (fetchAndAttach ?E) (assets (bundle' ?A))) ?w2
           = (Inr (),
              emit (GetMap 2)
               (emit (ConsoleLog [''setSourceContent'', ''src/a.js''])
                 (emit (GetMap 1)
                   (?w2\<lparr>assetMaps := (assetMaps sample_world)
                      (1 := Inr (Some (setSourceContent ''src/a.js'' ''let a = 1;''
                                         (new_SourceMap ''/project''))))\<rparr>))))"
    unfolding a
    apply (subst w2)
    apply (simp only: list.map runQueue.simps sample_unit_a prod.case sum.case)
    apply (subst sample_unit_b)
     apply (simp add: emit_def sample_world_def)
    apply simp
    done
  have g: "generate ?E ?A sample_world
           = (Inr \<lparr>contents = ''/* bundle */'',
                  result_map = Some (addIndexedMappings
                     [\<lparr>generated = (1, 0), original = Some (1, 0), source = Some ''src/a.js''\<rparr>]
                     (new_SourceMap (projectRoot (options ?A))))\<rparr>,
              emit (GetMap 2)
               (emit (ConsoleLog [''setSourceContent'', ''src/a.js''])
                 (emit (GetMap 1)
                   (?w2\<lparr>assetMaps := (assetMaps sample_world)
                      (1 := Inr (Some (setSourceContent ''src/a.js'' ''let a = 1;''
                                         (new_SourceMap ''/project''))))\<rparr>))))"
    unfolding generate_assembles[OF sample_source_maps_on printerInput_sample_silent sample_raw_mappings] q
    by (simp add: sample_code)
  have 1: "assetMaps sample_world (asset_id asset_a) = Inr (Some (new_SourceMap ''/project''))"
    by (simp add: sample_world_def asset_a_def)
  have 2: "toVLQ ?E (new_SourceMap ''/project'')
       = Inr \<lparr>sources = [''src/a.js'', ''src/empty.js''],
              sourcesContent = Some [Some ''let a = 1;'', Some []]\<rparr>"
    by (simp add: sample_ext_def sample_toVLQ_def new_SourceMap_def)
  have 3: "fst (generate ?E ?A sample_world)
       = Inr \<lparr>contents = ''/* bundle */'',
              result_map = Some \<lparr>root = ''/project'',
                 indexedMappings = [\<lparr>generated = (1, 0), original = Some (1, 0), source = Some ''src/a.js''\<rparr>],
                 contentOf = Map.empty\<rparr>\<rparr>"
    unfolding g by (simp add: addIndexedMappings_def new_SourceMap_def sample_args_def)
  have 4: "assetMaps (snd (generate ?E ?A sample_world)) 1
       = Inr (Some \<lparr>root = ''/project'', indexedMappings = [],
                    contentOf = [''src/a.js'' \<mapsto> ''let a = 1;'']\<rparr>)"
    unfolding g by (simp add: emit_def setSourceContent_def new_SourceMap_def)
  from 1 2 3 4 show ?thesis by blast
qed

end
